theory Spec2Isabelle
  imports Complex_Main
begin

section \<open>Python values, exceptions and keyword dictionaries\<close>

text \<open>
  The exception classes. \<open>Exception\<close> is the only class that
  \<^verbatim>\<open>renderer.py\<close> raises by a \<^verbatim>\<open>raise\<close> statement; \<open>KeyError\<close>,
  \<open>TypeError\<close>, \<open>ZeroDivisionError\<close>, \<open>AttributeError\<close>, \<open>IndexError\<close> and
  \<open>UnboundLocalError\<close> are raised by the interpreter for a missing key, a wrong
  operand, a division by zero, a missing attribute, an index out of range and a
  local variable read before its assignment. \<open>EnvironmentError\<close>,
  \<open>UnsupportedOperationError\<close>, \<open>ConfigurationError\<close> and
  \<open>LinkResolutionError\<close> are raised nowhere in \<^verbatim>\<open>renderer.py\<close>: the
  specification names them, and they are here to state what it says.
\<close>

datatype exc_class =
    Exception | KeyError | TypeError | ZeroDivisionError | AttributeError
  | IndexError | UnboundLocalError | EnvironmentError | UnsupportedOperationError
  | ConfigurationError | LinkResolutionError

datatype error = Raised exc_class string

fun exc_class_of :: "error \<Rightarrow> exc_class" where
  "exc_class_of (Raised c m) = c"

text \<open>
  A Python value as far as the renderer handles one: \<open>None\<close>, a string, an
  integer, a float of type \<open>'f\<close>, a tuple, a list, and a matplotlib
  \<open>Bbox\<close> of type \<open>'b\<close>. The floats are a type parameter, and their
  arithmetic, which rounds, is a parameter of the model.
\<close>

datatype ('b, 'f) pyval =
    PNone | PStr string | PInt int | PNum 'f
  | PTuple "('b, 'f) pyval list" | PList "('b, 'f) pyval list" | PBbox 'b

text \<open>A \<^verbatim>\<open>dict\<close> with string keys; \<^verbatim>\<open>dict(a, **b)\<close> is \<open>a ++ b\<close>.\<close>

type_synonym ('b, 'f) kwargs = "string \<rightharpoonup> ('b, 'f) pyval"

section \<open>The matplotlib objects the renderer consumes\<close>

text \<open>
  matplotlib is not part of the repository, so the operations of its \<open>Bbox\<close>
  class are parameters of the model: \<^verbatim>\<open>Bbox.intersection\<close> (which returns
  \<^verbatim>\<open>None\<close> for boxes that do not meet), \<^verbatim>\<open>Bbox.union\<close> of a list,
  \<^verbatim>\<open>padded\<close>, and the attributes \<^verbatim>\<open>width\<close> and \<^verbatim>\<open>height\<close>.
  \<open>Bbox_scaled b d\<close> is \<^verbatim>\<open>TransformedBbox(b, Affine2D().scale(1.0 / d))\<close>
  for an integer \<open>d\<close> other than zero: the division is Python's, on floats,
  and raises \<open>OverflowError\<close> for a \<open>d\<close> too large for a float. A width,
  a height and the padding are the real numbers that these floats stand for;
  the renderer compares them with zero and passes them on, and computes
  nothing from them.
\<close>

record 'b bbox_lib =
  Bbox_intersection :: "'b \<Rightarrow> 'b \<Rightarrow> 'b option"
  Bbox_union :: "'b list \<Rightarrow> 'b"
  Bbox_padded :: "'b \<Rightarrow> real \<Rightarrow> 'b"
  Bbox_width :: "'b \<Rightarrow> real"
  Bbox_height :: "'b \<Rightarrow> real"
  Bbox_scaled :: "'b \<Rightarrow> int \<Rightarrow> error + 'b"

text \<open>
  An artist, as \<^verbatim>\<open>_compute_bbox\<close> reads it: its window extent, whether it
  clips, its clip box and the extents of its fully transformed clip path
  (either may be \<^verbatim>\<open>None\<close>).
\<close>

record 'b artist =
  window_extent :: 'b
  clip_on :: bool
  clip_box :: "'b option"
  clip_path_extents :: "'b option"

text \<open>
  A figure: \<open>fig_id\<close> is \<^verbatim>\<open>id(fig)\<close>; \<open>draw_error\<close> is the exception
  that \<^verbatim>\<open>fig.canvas.draw()\<close> raises, if any; \<open>has_cachedRenderer\<close> says
  whether the attribute \<^verbatim>\<open>fig._cachedRenderer\<close> exists after the draw;
  \<open>tightbbox\<close> is what \<^verbatim>\<open>fig.get_tightbbox(renderer)\<close> returns and
  \<open>extra_artists\<close> what \<^verbatim>\<open>fig.get_default_bbox_extra_artists()\<close> returns;
  \<open>axes3d\<close> lists, for each axis of the figure, whether it is an
  \<^verbatim>\<open>Axes3D\<close>.
\<close>

record 'b figure =
  fig_id :: nat
  draw_error :: "error option"
  has_cachedRenderer :: bool
  tightbbox :: 'b
  extra_artists :: "'b artist list"
  facecolor :: string
  edgecolor :: string
  axes3d :: "bool list"

section \<open>The renderer and the state it changes\<close>

datatype mode = Default | D3 | Nbagg

text \<open>
  The parameters of an \<^verbatim>\<open>MPLRenderer\<close> instance that the methods read:
  \<^verbatim>\<open>self.dpi\<close> (an integer or \<^verbatim>\<open>None\<close>), \<^verbatim>\<open>self.fps\<close>,
  \<^verbatim>\<open>self.mode\<close>, and \<^verbatim>\<open>plt.rcParams['savefig.pad_inches']\<close>.
\<close>

record renderer =
  dpi :: "int option"
  fps :: int
  mode :: mode
  pad_inches :: real

text \<open>
  What the renderer does to the world, in the order it does it: each call that
  leaves the renderer for matplotlib, an encoder or the file system is one
  event.
\<close>

datatype event =
    SetDpi nat "int option"
  | CanvasDraw nat
  | PrintFigure nat
  | NewFigureManager nat nat
  | MouseInit nat
  | ManagerShow nat
  | D3Connect nat
  | AnimConstruct nat
  | AnimSave nat string
  | FileWrite string

text \<open>
  The mutable state: the class attribute \<^verbatim>\<open>MPLRenderer.drawn\<close> (line 38),
  a dictionary from \<^verbatim>\<open>id(fig)\<close> to the bounding box; the attribute
  \<^verbatim>\<open>counter\<close>; the events so far; and the files on disk.
\<close>

record 'b state =
  drawn :: "nat \<rightharpoonup> 'b"
  counter :: nat
  trace :: "event list"
  files :: "string \<rightharpoonup> string"

definition emit :: "event \<Rightarrow> 'b state \<Rightarrow> 'b state" where
  "emit e s = s\<lparr>trace := trace s @ [e]\<rparr>"

section \<open>\<^verbatim>\<open>_compute_bbox\<close> (renderer.py, lines 228 to 272)\<close>

text \<open>
  Lines 248 to 257: the extent of one artist, clipped to its clip box and to
  its clip path when the artist clips. \<^verbatim>\<open>None\<close> is the result of an
  intersection of boxes that do not meet.
\<close>

definition clipped_extent :: "'b bbox_lib \<Rightarrow> 'b artist \<Rightarrow> 'b option" where
  "clipped_extent L a =
     (let bbox = Some (window_extent a) in
      if clip_on a then
        (let bbox = (case clip_box a of
                       None \<Rightarrow> bbox
                     | Some cb \<Rightarrow> Bbox_intersection L (window_extent a) cb) in
         (case (clip_path_extents a, bbox) of
            (Some ce, Some b) \<Rightarrow> Bbox_intersection L b ce
          | _ \<Rightarrow> bbox))
      else bbox)"

text \<open>
  Lines 246 to 260: the loop over the artists, with \<^verbatim>\<open>bbox_filtered\<close> as
  the accumulator that \<^verbatim>\<open>append\<close> extends. An extent is kept when it is
  not \<^verbatim>\<open>None\<close> and its width or its height is not zero (lines 258, 259).
\<close>

fun filter_artists :: "'b bbox_lib \<Rightarrow> 'b artist list \<Rightarrow> 'b list \<Rightarrow> 'b list" where
  "filter_artists L [] bbox_filtered = bbox_filtered"
| "filter_artists L (a # as) bbox_filtered =
     (case clipped_extent L a of
        None \<Rightarrow> filter_artists L as bbox_filtered
      | Some bbox \<Rightarrow>
          if Bbox_width L bbox \<noteq> 0 \<or> Bbox_height L bbox \<noteq> 0
          then filter_artists L as (bbox_filtered @ [bbox])
          else filter_artists L as bbox_filtered)"

text \<open>
  Lines 263 and 264: \<^verbatim>\<open>TransformedBbox(_bbox, Affine2D().scale(1.0 / self.dpi))\<close>.
  The division raises \<open>TypeError\<close> when the dpi is \<^verbatim>\<open>None\<close> and
  \<open>ZeroDivisionError\<close> when it is zero.
\<close>

definition scale_to_inches :: "'b bbox_lib \<Rightarrow> renderer \<Rightarrow> 'b \<Rightarrow> error + 'b" where
  "scale_to_inches L r bbox =
     (case dpi r of
        None \<Rightarrow> Inl (Raised TypeError ''unsupported operand type(s) for /'')
      | Some d \<Rightarrow> if d = 0 then Inl (Raised ZeroDivisionError ''float division by zero'')
                  else Bbox_scaled L bbox d)"

text \<open>
  Lines 244 to 267, after the draw: the tight box of the figure, joined with
  the scaled union of the kept extents when there is one, then padded.
\<close>

definition tight_bbox :: "'b bbox_lib \<Rightarrow> renderer \<Rightarrow> 'b figure \<Rightarrow> error + 'b" where
  "tight_bbox L r fig =
     (let bbox_inches = tightbbox fig;
          bbox_filtered = filter_artists L (extra_artists fig) [] in
      if bbox_filtered \<noteq> [] then
        (case scale_to_inches L r (Bbox_union L bbox_filtered) of
           Inl e \<Rightarrow> Inl e
         | Inr bbox_extra \<Rightarrow>
             Inr (Bbox_padded L (Bbox_union L [bbox_inches, bbox_extra]) (pad_inches r)))
      else Inr (Bbox_padded L bbox_inches (pad_inches r)))"

text \<open>
  Lines 241 to 268: the branch taken when the figure is not in the cache. The
  state is returned also when an exception is raised, since
  \<^verbatim>\<open>set_dpi\<close> and the draw have happened by then.
\<close>

definition draw_and_measure ::
  "'b bbox_lib \<Rightarrow> renderer \<Rightarrow> 'b figure \<Rightarrow> 'b state \<Rightarrow> (error + 'b) \<times> 'b state" where
  "draw_and_measure L r fig s =
     (let s1 = emit (SetDpi (fig_id fig) (dpi r)) s;
          s2 = emit (CanvasDraw (fig_id fig)) s1 in
      case draw_error fig of
        Some e \<Rightarrow> (Inl e, s2)
      | None \<Rightarrow>
          if \<not> has_cachedRenderer fig
          then (Inl (Raised AttributeError ''_cachedRenderer''), s2)
          else (case tight_bbox L r fig of
                  Inl e \<Rightarrow> (Inl e, s2)
                | Inr b \<Rightarrow> (Inr b, s2\<lparr>drawn := (drawn s2)(fig_id fig \<mapsto> b)\<rparr>)))"

text \<open>
  \<^verbatim>\<open>_compute_bbox(self, fig, kw)\<close>. A key that \<open>kw\<close> lacks raises
  \<open>KeyError\<close>; \<^verbatim>\<open>and\<close> reads \<^verbatim>\<open>kw['format']\<close> only when the crop is
  \<^verbatim>\<open>'tight'\<close>. The dictionary is written (lines 269 and 271) after
  everything that can raise, so a call that raises leaves \<open>kw\<close> as it was.
\<close>

definition compute_bbox ::
  "'b bbox_lib \<Rightarrow> renderer \<Rightarrow> 'b figure \<Rightarrow> ('b, 'f) kwargs \<Rightarrow> 'b state
     \<Rightarrow> (error + ('b, 'f) kwargs) \<times> 'b state" where
  "compute_bbox L r fig kw s =
     (case kw ''bbox_inches'' of
        None \<Rightarrow> (Inl (Raised KeyError ''bbox_inches''), s)
      | Some crop \<Rightarrow>
          if crop = PStr ''tight'' then
            (case kw ''format'' of
               None \<Rightarrow> (Inl (Raised KeyError ''format''), s)
             | Some fmt \<Rightarrow>
                 if fmt = PStr ''png'' then
                   (case drawn s (fig_id fig) of
                      None \<Rightarrow>
                        (case draw_and_measure L r fig s of
                           (Inl e, s') \<Rightarrow> (Inl e, s')
                         | (Inr b, s') \<Rightarrow> (Inr (kw(''bbox_inches'' \<mapsto> PBbox b)), s'))
                    | Some b \<Rightarrow> (Inr (kw(''bbox_inches'' \<mapsto> PBbox b)), s))
                 else (Inr kw, s))
          else (Inr kw, s))"

section \<open>Collaborators outside the two source files\<close>

text \<open>
  An animation object: \<open>has_encoded_video\<close> is
  \<^verbatim>\<open>hasattr(anim, '_encoded_video')\<close>; \<open>save_result writer kwargs\<close> is what
  \<^verbatim>\<open>anim.save(f.name, writer=writer, **kwargs)\<close> leaves in the temporary
  file, or the exception the encoder raises.
\<close>

record ('b, 'f) anim =
  anim_id :: nat
  has_encoded_video :: bool
  save_result :: "string \<Rightarrow> ('b, 'f) kwargs \<Rightarrow> error + string"

text \<open>
  A plot: \<^verbatim>\<open>plot.state\<close> is its figure and \<^verbatim>\<open>plot.anim(fps=...)\<close> its
  animation.
\<close>

record ('b, 'f) plot =
  plot_state :: "'b figure"
  plot_anim :: "int \<Rightarrow> ('b, 'f) anim"

datatype payload = Bytes string | Text string | Dict string

text \<open>The second component of what \<^verbatim>\<open>__call__\<close> returns (lines 97, 98).\<close>

record info =
  file_ext :: string
  mime_type :: string

text \<open>
  What the renderer calls and does not define: \<^verbatim>\<open>Renderer._validate\<close>,
  \<^verbatim>\<open>Renderer.encode\<close> and the table \<^verbatim>\<open>MIME_TYPES\<close> of the base class,
  \<^verbatim>\<open>sys.version_info[0]\<close> and \<^verbatim>\<open>mpl.__version__\<close>,
  \<^verbatim>\<open>fig.canvas.print_figure\<close>, \<^verbatim>\<open>new_figure_manager_given_figure\<close>
  (\<open>None\<close> when it returns no manager), \<^verbatim>\<open>mpld3.fig_to_dict\<close> and
  \<^verbatim>\<open>mpld3.fig_to_html\<close>, entering \<^verbatim>\<open>StoreOptions.options\<close> (the exception
  it raises, if any), and for \<^verbatim>\<open>plot_options\<close>:
  \<^verbatim>\<open>isinstance(obj, HoloMap)\<close>, \<^verbatim>\<open>obj.last\<close>,
  \<^verbatim>\<open>Store.lookup_options(cls.backend, obj, 'plot').options\<close> and the class
  default \<^verbatim>\<open>MPLPlot.fig_inches\<close>. The last three are Python's arithmetic on
  floats: the conversion of an integer to a float, which raises
  \<open>OverflowError\<close> for an integer too large, the product of two floats, and
  the quotient of a float by \<^verbatim>\<open>100.0\<close>.
\<close>

record ('o, 'b, 'f) collab =
  validate :: "'o \<Rightarrow> string \<Rightarrow> error + (('b, 'f) plot option \<times> string)"
  encode :: "payload \<times> info \<Rightarrow> string"
  MIME_TYPES :: "string \<rightharpoonup> string"
  py_major :: nat
  mpl_version :: string
  print_figure :: "'b figure \<Rightarrow> ('b, 'f) kwargs \<Rightarrow> error + string"
  new_figure_manager :: "nat \<Rightarrow> 'b figure \<Rightarrow> nat option"
  fig_to_dict :: "'b figure \<Rightarrow> string"
  fig_to_html :: "'b figure \<Rightarrow> string"
  store_options :: "'o \<Rightarrow> error option"
  is_HoloMap :: "'o \<Rightarrow> bool"
  last_of :: "'o \<Rightarrow> 'o"
  lookup_options :: "'o \<Rightarrow> error + ('b, 'f) kwargs"
  MPLPlot_fig_inches :: "('b, 'f) pyval"
  float_of_int :: "int \<Rightarrow> error + 'f"
  float_mul :: "'f \<Rightarrow> 'f \<Rightarrow> 'f"
  div_100 :: "'f \<Rightarrow> 'f"

section \<open>\<^verbatim>\<open>_figure_data\<close> (renderer.py, lines 154 to 207)\<close>

text \<open>Lines 204 to 206 of \<^verbatim>\<open>get_figure_manager\<close>: one \<^verbatim>\<open>mouse_init\<close> for each 3D axis.\<close>

fun mouse_inits :: "nat \<Rightarrow> bool list \<Rightarrow> 'b state \<Rightarrow> 'b state" where
  "mouse_inits fid [] s = s"
| "mouse_inits fid (is3d # axs) s =
     mouse_inits fid axs (if is3d then emit (MouseInit fid) s else s)"

definition get_figure_manager ::
  "('o, 'b, 'f) collab \<Rightarrow> ('b, 'f) plot \<Rightarrow> 'b state \<Rightarrow> nat option \<times> 'b state" where
  "get_figure_manager C plot s =
     (let fig = plot_state plot;
          manager = new_figure_manager C (counter s) fig;
          s1 = emit (NewFigureManager (counter s) (fig_id fig)) s in
      (manager, mouse_inits (fig_id fig) (axes3d fig) s1))"

definition py_dpi :: "renderer \<Rightarrow> ('b, 'f) pyval" where
  "py_dpi r = (case dpi r of None \<Rightarrow> PNone | Some d \<Rightarrow> PInt d)"

text \<open>Lines 177 to 184: the keyword dictionary for \<^verbatim>\<open>print_figure\<close>.\<close>

definition figure_kw ::
  "renderer \<Rightarrow> 'b figure \<Rightarrow> string \<Rightarrow> ('b, 'f) pyval \<Rightarrow> ('b, 'f) kwargs \<Rightarrow> ('b, 'f) kwargs" where
  "figure_kw r fig fmt bbox_inches kwargs =
     [''format'' \<mapsto> PStr fmt,
      ''facecolor'' \<mapsto> PStr (facecolor fig),
      ''edgecolor'' \<mapsto> PStr (edgecolor fig),
      ''dpi'' \<mapsto> py_dpi r,
      ''bbox_inches'' \<mapsto> bbox_inches] ++ kwargs"

text \<open>Lines 192 to 197: print the figure and decode the data of an SVG.\<close>

definition print_and_read ::
  "('o, 'b, 'f) collab \<Rightarrow> 'b figure \<Rightarrow> string \<Rightarrow> ('b, 'f) kwargs \<Rightarrow> 'b state
     \<Rightarrow> (error + payload) \<times> 'b state" where
  "print_and_read C fig fmt kw s =
     (let s1 = emit (PrintFigure (fig_id fig)) s in
      case print_figure C fig kw of
        Inl e \<Rightarrow> (Inl e, s1)
      | Inr data \<Rightarrow> (Inr (if fmt = ''svg'' then Text data else Bytes data), s1))"

text \<open>
  \<^verbatim>\<open>_figure_data(self, plot, fmt, bbox_inches, **kwargs)\<close>. Lines 187 to
  190 are the \<^verbatim>\<open>try\<close> with a bare \<^verbatim>\<open>except: pass\<close>: when
  \<^verbatim>\<open>_compute_bbox\<close> raises, \<open>kw\<close> keeps its value and the state keeps what
  the call did before it raised.
\<close>

definition figure_data ::
  "('o, 'b, 'f) collab \<Rightarrow> 'b bbox_lib \<Rightarrow> renderer \<Rightarrow> ('b, 'f) plot \<Rightarrow> string \<Rightarrow> ('b, 'f) pyval
     \<Rightarrow> ('b, 'f) kwargs \<Rightarrow> 'b state \<Rightarrow> (error + payload) \<times> 'b state" where
  "figure_data C L r plot fmt bbox_inches kwargs s =
     (let fig = plot_state plot in
      case mode r of
        Nbagg \<Rightarrow>
          (case get_figure_manager C plot s of
             (None, s1) \<Rightarrow> (Inr (Text []), s1)
           | (Some m, s1) \<Rightarrow>
               (Inr (Text []), emit (ManagerShow m) (s1\<lparr>counter := counter s1 + 1\<rparr>)))
      | D3 \<Rightarrow>
          (let s1 = emit (SetDpi (fig_id fig) (dpi r)) s;
               s2 = emit (D3Connect (fig_id fig)) s1 in
           if fmt = ''json'' then (Inr (Dict (fig_to_dict C fig)), s2)
           else (Inr (Text (''<center>'' @ fig_to_html C fig @ ''<center/>'')), s2))
      | Default \<Rightarrow>
          (let kw = figure_kw r fig fmt bbox_inches kwargs in
           case compute_bbox L r fig kw s of
             (Inl e, s1) \<Rightarrow> print_and_read C fig fmt kw s1
           | (Inr kw', s1) \<Rightarrow> print_and_read C fig fmt kw' s1))"

section \<open>\<^verbatim>\<open>_anim_data\<close> (renderer.py, lines 59 to 66 and 210 to 225)\<close>

text \<open>
  The table \<^verbatim>\<open>ANIMATION_OPTS\<close>: for each format the animation writer, the
  container format, the base keyword arguments and the extra arguments, which
  are a list of strings, or \<^verbatim>\<open>None\<close> for \<^verbatim>\<open>'scrubber'\<close>.
\<close>

definition ANIMATION_OPTS ::
  "string \<rightharpoonup> (string \<times> string option \<times> ('b, 'f) kwargs \<times> ('b, 'f) pyval)" where
  "ANIMATION_OPTS =
     [''webm'' \<mapsto> (''ffmpeg'', Some ''webm'', Map.empty,
                     PList [PStr ''-vcodec'', PStr ''libvpx'', PStr ''-b'', PStr ''1000k'']),
      ''mp4'' \<mapsto> (''ffmpeg'', Some ''mp4'', [''codec'' \<mapsto> PStr ''libx264''],
                    PList [PStr ''-pix_fmt'', PStr ''yuv420p'']),
      ''gif'' \<mapsto> (''imagemagick'', Some ''gif'', [''fps'' \<mapsto> PInt 10], PList []),
      ''scrubber'' \<mapsto> (''html'', None, [''fps'' \<mapsto> PInt 5], PNone)]"

text \<open>Line 218: \<^verbatim>\<open>{'dpi':self.dpi} if self.dpi is not None else {}\<close>.\<close>

definition dpi_if_not_None :: "renderer \<Rightarrow> ('b, 'f) kwargs" where
  "dpi_if_not_None r = (case dpi r of None \<Rightarrow> Map.empty | Some d \<Rightarrow> [''dpi'' \<mapsto> PInt d])"

text \<open>
  Lines 90 and 223: \<^verbatim>\<open>{'dpi':self.dpi} if self.dpi else {}\<close>, where
  \<^verbatim>\<open>None\<close> and \<open>0\<close> are false.
\<close>

definition dpi_if_true :: "renderer \<Rightarrow> ('b, 'f) kwargs" where
  "dpi_if_true r =
     (case dpi r of None \<Rightarrow> Map.empty
                  | Some d \<Rightarrow> if d = 0 then Map.empty else [''dpi'' \<mapsto> PInt d])"

text \<open>
  Lines 215 to 219 and the dictionary of line 223: the keyword arguments that
  \<^verbatim>\<open>anim.save\<close> gets for a table entry. In line 219 the table's arguments
  are the \<^verbatim>\<open>**\<close> part, so they win over \<^verbatim>\<open>{'fps':self.fps}\<close>.
\<close>

definition encoder_kwargs ::
  "renderer \<Rightarrow> string \<Rightarrow> ('b, 'f) kwargs \<Rightarrow> ('b, 'f) pyval \<Rightarrow> ('b, 'f) kwargs" where
  "encoder_kwargs r fmt anim_kwargs extra_args =
     (let anim_kwargs = (if extra_args \<noteq> PList []
                         then anim_kwargs(''extra_args'' \<mapsto> extra_args)
                         else anim_kwargs);
          anim_kwargs = anim_kwargs ++ dpi_if_not_None r;
          anim_kwargs = (if fmt = ''gif'' then [''fps'' \<mapsto> PInt (fps r)] else Map.empty)
                        ++ anim_kwargs
      in anim_kwargs ++ dpi_if_true r)"

text \<open>
  \<^verbatim>\<open>_anim_data(self, anim, fmt)\<close>. \<^verbatim>\<open>video\<close> is assigned only inside the
  \<^verbatim>\<open>if not hasattr(anim, '_encoded_video')\<close>, so the \<^verbatim>\<open>return video\<close> of
  line 225 raises \<open>UnboundLocalError\<close> otherwise.
\<close>

definition anim_data ::
  "renderer \<Rightarrow> ('b, 'f) anim \<Rightarrow> string \<Rightarrow> 'b state \<Rightarrow> (error + payload) \<times> 'b state" where
  "anim_data r anim fmt s =
     (case ANIMATION_OPTS fmt of
        None \<Rightarrow> (Inl (Raised KeyError fmt), s)
      | Some (writer, container, anim_kwargs, extra_args) \<Rightarrow>
          if \<not> has_encoded_video anim then
            (let s1 = emit (AnimSave (anim_id anim) writer) s in
             case save_result anim writer (encoder_kwargs r fmt anim_kwargs extra_args) of
               Inl e \<Rightarrow> (Inl e, s1)
             | Inr video \<Rightarrow> (Inr (Bytes video), s1))
          else (Inl (Raised UnboundLocalError ''video''), s))"

section \<open>\<^verbatim>\<open>__call__\<close> and \<^verbatim>\<open>save\<close> (renderer.py, lines 81 to 98 and 129 to 144)\<close>

definition static_formats :: "string list" where
  "static_formats = [''png'', ''svg'', ''pdf'', ''html'', ''json'']"

text \<open>
  Line 92: \<^verbatim>\<open>sys.version_info[0] == 3 and mpl.__version__[:-2] in ['1.2', '1.3']\<close>.
  The slice drops the last two characters of the version string.
\<close>

definition broken_env :: "('o, 'b, 'f) collab \<Rightarrow> bool" where
  "broken_env C =
     (py_major C = 3 \<and>
      take (length (mpl_version C) - 2) (mpl_version C) \<in> set [''1.2'', ''1.3''])"

definition broken_message :: string where
  "broken_message = ''<b>Python 3 matplotlib animation support broken &lt;= 1.3</b>''"

text \<open>Lines 97 and 98; \<^verbatim>\<open>MIME_TYPES[fmt]\<close> raises \<open>KeyError\<close> for a format it lacks.\<close>

definition rendered ::
  "('o, 'b, 'f) collab \<Rightarrow> string \<Rightarrow> payload \<Rightarrow> error + (payload \<times> info) option" where
  "rendered C fmt data =
     (case MIME_TYPES C fmt of
        None \<Rightarrow> Inl (Raised KeyError fmt)
      | Some m \<Rightarrow> Inr (Some (data, \<lparr>file_ext = fmt, mime_type = m\<rparr>)))"

text \<open>
  \<^verbatim>\<open>__call__(self, obj, fmt)\<close>; the result \<open>Inr None\<close> is the bare
  \<^verbatim>\<open>return\<close> of line 87.
\<close>

definition call ::
  "('o, 'b, 'f) collab \<Rightarrow> 'b bbox_lib \<Rightarrow> renderer \<Rightarrow> 'o \<Rightarrow> string \<Rightarrow> 'b state
     \<Rightarrow> (error + (payload \<times> info) option) \<times> 'b state" where
  "call C L r obj fmt s =
     (case validate C obj fmt of
        Inl e \<Rightarrow> (Inl e, s)
      | Inr (None, fmt) \<Rightarrow> (Inr None, s)
      | Inr (Some plot, fmt) \<Rightarrow>
          if fmt \<in> set static_formats then
            (case figure_data C L r plot fmt (PStr ''tight'') (dpi_if_true r) s of
               (Inl e, s1) \<Rightarrow> (Inl e, s1)
             | (Inr data, s1) \<Rightarrow> (rendered C fmt data, s1))
          else if broken_env C then (Inl (Raised Exception broken_message), s)
          else
            (let anim = plot_anim plot (fps r);
                 s1 = emit (AnimConstruct (anim_id anim)) s in
             case anim_data r anim fmt s1 of
               (Inl e, s2) \<Rightarrow> (Inl e, s2)
             | (Inr data, s2) \<Rightarrow> (rendered C fmt data, s2)))"

definition metadata_message :: string where
  "metadata_message = ''MPLRenderer does not support saving metadata to file.''"

text \<open>
  \<^verbatim>\<open>save(self_or_cls, obj, basename, fmt, key, info, ...)\<close>. \<open>key\<close> and
  \<open>info\<close> are dictionaries, given as lists of their items: line 135 tests
  that one of them is not empty.
\<close>

definition save ::
  "('o, 'b, 'f) collab \<Rightarrow> 'b bbox_lib \<Rightarrow> renderer \<Rightarrow> 'o \<Rightarrow> string \<Rightarrow> string
     \<Rightarrow> (string \<times> ('b, 'f) pyval) list \<Rightarrow> (string \<times> ('b, 'f) pyval) list \<Rightarrow> 'b state
     \<Rightarrow> (error + unit) \<times> 'b state" where
  "save C L r obj basename fmt key info s =
     (if info \<noteq> [] \<or> key \<noteq> [] then (Inl (Raised Exception metadata_message), s)
      else
        (case store_options C obj of
           Some e \<Rightarrow> (Inl e, s)
         | None \<Rightarrow>
             (case call C L r obj fmt s of
                (Inl e, s1) \<Rightarrow> (Inl e, s1)
              | (Inr None, s1) \<Rightarrow> (Inr (), s1)
              | (Inr (Some (data, info')), s1) \<Rightarrow>
                  (let filename = basename @ ''.'' @ file_ext info' in
                   (Inr (),
                    emit (FileWrite filename)
                      (s1\<lparr>files := (files s1)(filename \<mapsto> encode C (data, info'))\<rparr>))))))"

section \<open>\<^verbatim>\<open>plot_options\<close> (renderer.py, lines 101 to 127)\<close>

text \<open>
  The float that a number is: a float is itself, an integer is converted, and
  anything else (a string, \<^verbatim>\<open>None\<close>, a tuple, a list) is no operand of
  \<^verbatim>\<open>*\<close> or \<^verbatim>\<open>/\<close> with a float and raises \<open>TypeError\<close>.
\<close>

definition as_float :: "('o, 'b, 'f) collab \<Rightarrow> ('b, 'f) pyval \<Rightarrow> error + 'f" where
  "as_float C v =
     (case v of
        PInt i \<Rightarrow> float_of_int C i
      | PNum x \<Rightarrow> Inr x
      | _ \<Rightarrow> Inl (Raised TypeError ''unsupported operand type(s)''))"

text \<open>Line 116: \<^verbatim>\<open>percent_size / 100.0\<close>.\<close>

definition percent_factor :: "('o, 'b, 'f) collab \<Rightarrow> ('b, 'f) pyval \<Rightarrow> error + 'f" where
  "percent_factor C percent_size =
     (case as_float C percent_size of Inl e \<Rightarrow> Inl e | Inr x \<Rightarrow> Inr (div_100 C x))"

text \<open>\<^verbatim>\<open>v * factor\<close> for a float \<open>factor\<close>.\<close>

definition times_float ::
  "('o, 'b, 'f) collab \<Rightarrow> ('b, 'f) pyval \<Rightarrow> 'f \<Rightarrow> error + ('b, 'f) pyval" where
  "times_float C v factor =
     (case as_float C v of Inl e \<Rightarrow> Inl e | Inr x \<Rightarrow> Inr (PNum (float_mul C x factor)))"

definition item :: "('b, 'f) pyval list \<Rightarrow> nat \<Rightarrow> error + ('b, 'f) pyval" where
  "item xs i =
     (if i < length xs then Inr (xs ! i) else Inl (Raised IndexError ''index out of range''))"

text \<open>\<^verbatim>\<open>isinstance(v, (list, tuple))\<close>, with the items.\<close>

definition list_or_tuple :: "('b, 'f) pyval \<Rightarrow> ('b, 'f) pyval list option" where
  "list_or_tuple v = (case v of PTuple xs \<Rightarrow> Some xs | PList xs \<Rightarrow> Some xs | _ \<Rightarrow> None)"

text \<open>
  Lines 120 to 124. The \<^verbatim>\<open>else\<close> branch multiplies the class default
  \<^verbatim>\<open>MPLPlot.fig_inches\<close>, not the value looked up.
\<close>

definition scale_fig_inches ::
  "('o, 'b, 'f) collab \<Rightarrow> ('b, 'f) pyval \<Rightarrow> 'f \<Rightarrow> error + ('b, 'f) pyval" where
  "scale_fig_inches C fig_inches factor =
     (case list_or_tuple fig_inches of
        Some xs \<Rightarrow>
          (case item xs 0 of Inl e \<Rightarrow> Inl e | Inr a \<Rightarrow>
          (case times_float C a factor of Inl e \<Rightarrow> Inl e | Inr a' \<Rightarrow>
          (case item xs 1 of Inl e \<Rightarrow> Inl e | Inr b \<Rightarrow>
          (case times_float C b factor of Inl e \<Rightarrow> Inl e | Inr b' \<Rightarrow>
             Inr (PTuple [a', b'])))))
      | None \<Rightarrow> times_float C (MPLPlot_fig_inches C) factor)"

text \<open>
  \<^verbatim>\<open>plot_options(cls, obj, percent_size)\<close>. In line 126 the looked-up
  options are the \<^verbatim>\<open>**\<close> part of \<^verbatim>\<open>dict({'fig_inches':fig_inches}, **options)\<close>,
  so an option \<^verbatim>\<open>fig_inches\<close> of the object replaces the computed size. The
  state is an argument and a result, as for the other methods, to say what the
  method does to it.
\<close>

definition plot_options ::
  "('o, 'b, 'f) collab \<Rightarrow> 'o \<Rightarrow> ('b, 'f) pyval \<Rightarrow> 'b state
     \<Rightarrow> (error + ('b, 'f) kwargs) \<times> 'b state" where
  "plot_options C obj percent_size s =
     (case percent_factor C percent_size of
        Inl e \<Rightarrow> (Inl e, s)
      | Inr factor \<Rightarrow>
          (let obj = (if is_HoloMap C obj then last_of C obj else obj) in
           case lookup_options C obj of
             Inl e \<Rightarrow> (Inl e, s)
           | Inr options \<Rightarrow>
               (let fig_inches = (case options ''fig_inches'' of
                                    None \<Rightarrow> MPLPlot_fig_inches C
                                  | Some v \<Rightarrow> v) in
                case scale_fig_inches C fig_inches factor of
                  Inl e \<Rightarrow> (Inl e, s)
                | Inr fig_inches \<Rightarrow>
                    (case lookup_options C obj of
                       Inl e \<Rightarrow> (Inl e, s)
                     | Inr options' \<Rightarrow>
                         (Inr ([''fig_inches'' \<mapsto> fig_inches] ++ options'), s)))))"

section \<open>The link registry and the link resolver\<close>

text \<open>
  Modelled from the spec: the module \<^verbatim>\<open>holoviews/plotting/links.py\<close> (the
  classes \<^verbatim>\<open>Link\<close>, \<^verbatim>\<open>RangeToolLink\<close>, \<^verbatim>\<open>DataLink\<close> and the registry
  \<^verbatim>\<open>Link.registry\<close>) is not among the source files, only its test
  \<^verbatim>\<open>testlinks.py\<close> is. A link has the attributes of section 3 of the
  specification; elements are named by their identity, a number.
\<close>

datatype link_kind = RangeLink | DataLink | CustomLink

record link =
  source :: nat
  target :: "nat option"
  kind :: link_kind
  axes :: "string list"
  transient :: bool

text \<open>
  Modelled from the spec: the registry of \<^verbatim>\<open>links.py\<close>, missing from the
  source files, ``maps an element identity to an ordered sequence of Link
  objects where that element is the source''; \<open>lookup\<close> ``returns all links
  where the element is the source; empty sequence if none''.
\<close>

type_synonym registry = "nat \<Rightarrow> link list"

definition empty_registry :: registry where
  "empty_registry = (\<lambda>e. [])"

definition lookup :: "registry \<Rightarrow> nat \<Rightarrow> link list" where
  "lookup reg e = reg e"

text \<open>
  Modelled from the spec: which kinds of the missing \<^verbatim>\<open>links.py\<close> need a
  target. The glossary makes a range-link and a data-link a binding of two
  plots; ``some link kinds are unidirectional single-element annotations''.
\<close>

definition requires_target :: "link_kind \<Rightarrow> bool" where
  "requires_target k = (k = RangeLink \<or> k = DataLink)"

text \<open>
  Modelled from the spec: the axes check of the missing \<^verbatim>\<open>links.py\<close>; the
  axes are a ``subset of {x, y} for range-links''.
\<close>

definition valid_axes :: "link_kind \<Rightarrow> string list \<Rightarrow> bool" where
  "valid_axes k axs = (k \<noteq> RangeLink \<or> list_all (\<lambda>a. a = ''x'' \<or> a = ''y'') axs)"

text \<open>
  Modelled from the spec: when two declarations of the missing \<^verbatim>\<open>links.py\<close>
  are the same link, ``an identical (source, target, kind)''.
\<close>

definition same_link :: "link \<Rightarrow> link \<Rightarrow> bool" where
  "same_link l l' = (source l = source l' \<and> target l = target l' \<and> kind l = kind l')"

text \<open>
  Modelled from the spec: \<open>declare\<close> of the missing \<^verbatim>\<open>links.py\<close>, which
  ``registers a link. Fails with ConfigurationError if kind requires a target
  and none is given, or if axes is invalid for the kind. Idempotent:
  re-declaring an identical (source, target, kind) is a no-op (no duplicate
  stored)''.
\<close>

definition declare_link :: "registry \<Rightarrow> link \<Rightarrow> error + registry" where
  "declare_link reg l =
     (if requires_target (kind l) \<and> target l = None
      then Inl (Raised ConfigurationError ''target required'')
      else if \<not> valid_axes (kind l) (axes l)
      then Inl (Raised ConfigurationError ''invalid axes'')
      else if filter (same_link l) (reg (source l)) \<noteq> [] then Inr reg
      else Inr (reg(source l := reg (source l) @ [l])))"

text \<open>
  Modelled from the spec: a sequence of declarations against the missing
  \<^verbatim>\<open>links.py\<close>, stopping at the first that fails.
\<close>

fun declare_all :: "registry \<Rightarrow> link list \<Rightarrow> error + registry" where
  "declare_all reg [] = Inr reg"
| "declare_all reg (l # ls) =
     (case declare_link reg l of Inl e \<Rightarrow> Inl e | Inr reg' \<Rightarrow> declare_all reg' ls)"













section \<open>The bounding box in the words of the specification\<close>

text \<open>
  What an artist is clipped to, ``its own clip box/path'': nothing when it
  does not clip, else its clip box and the extents of its clip path, as far as
  it has them.
\<close>

definition clip_regions :: "'b artist \<Rightarrow> 'b list" where
  "clip_regions a =
     (if clip_on a
      then (case clip_box a of None \<Rightarrow> [] | Some c \<Rightarrow> [c])
           @ (case clip_path_extents a of None \<Rightarrow> [] | Some c \<Rightarrow> [c])
      else [])"

text \<open>An extent cut down to each region in turn; nothing is left once it misses one.\<close>

fun clip_to :: "'b bbox_lib \<Rightarrow> 'b \<Rightarrow> 'b list \<Rightarrow> 'b option" where
  "clip_to L b [] = Some b"
| "clip_to L b (c # cs) =
     (case Bbox_intersection L b c of None \<Rightarrow> None | Some b' \<Rightarrow> clip_to L b' cs)"

text \<open>
  The extents that count: for each extra artist its clipped extent, left out
  when the clipping leaves nothing or when what is left has neither width nor
  height.
\<close>

definition kept_extents :: "'b bbox_lib \<Rightarrow> 'b artist list \<Rightarrow> 'b list" where
  "kept_extents L artists =
     filter (\<lambda>b. Bbox_width L b \<noteq> 0 \<or> Bbox_height L b \<noteq> 0)
       (concat (map (\<lambda>a. case clip_to L (window_extent a) (clip_regions a) of
                             None \<Rightarrow> [] | Some b \<Rightarrow> [b]) artists))"

text \<open>
  The union of the whole-figure tight extent and the extents of the extra
  artists, brought from pixels to inches, padded by the configured padding.
  There is no such box when an extent counts and the dpi is \<^verbatim>\<open>None\<close> or
  zero or the scaling fails.
\<close>

definition padded_union :: "'b bbox_lib \<Rightarrow> renderer \<Rightarrow> 'b figure \<Rightarrow> 'b option" where
  "padded_union L r fig =
     (let extents = kept_extents L (extra_artists fig) in
      if extents = [] then Some (Bbox_padded L (tightbbox fig) (pad_inches r))
      else
        (case dpi r of
           None \<Rightarrow> None
         | Some d \<Rightarrow>
             if d = 0 then None
             else (case Bbox_scaled L (Bbox_union L extents) d of
                     Inl e \<Rightarrow> None
                   | Inr inches \<Rightarrow>
                       Some (Bbox_padded L (Bbox_union L [tightbbox fig, inches])
                               (pad_inches r)))))"


section \<open>A concrete library, figure and environment\<close>

text \<open>
  Boxes as rectangles \<open>(x0, y0, x1, y1)\<close> over the reals, with the
  operations of matplotlib's \<open>Bbox\<close>: the examples below run the model on
  them.
\<close>

type_synonym rect = "real \<times> real \<times> real \<times> real"

fun rect_meet :: "rect \<Rightarrow> rect \<Rightarrow> rect option" where
  "rect_meet (a0, b0, a1, b1) (c0, d0, c1, d1) =
     (if max a0 c0 \<le> min a1 c1 \<and> max b0 d0 \<le> min b1 d1
      then Some (max a0 c0, max b0 d0, min a1 c1, min b1 d1) else None)"

fun rect_join :: "rect \<Rightarrow> rect \<Rightarrow> rect" where
  "rect_join (a0, b0, a1, b1) (c0, d0, c1, d1) =
     (min a0 c0, min b0 d0, max a1 c1, max b1 d1)"

fun rect_union :: "rect list \<Rightarrow> rect" where
  "rect_union [] = (0, 0, 0, 0)"
| "rect_union [b] = b"
| "rect_union (b # bs) = rect_join b (rect_union bs)"

fun rect_padded :: "rect \<Rightarrow> real \<Rightarrow> rect" where
  "rect_padded (x0, y0, x1, y1) p = (x0 - p, y0 - p, x1 + p, y1 + p)"

fun rect_scaled :: "rect \<Rightarrow> int \<Rightarrow> error + rect" where
  "rect_scaled (x0, y0, x1, y1) d =
     Inr (x0 / real_of_int d, y0 / real_of_int d, x1 / real_of_int d, y1 / real_of_int d)"

fun rect_width :: "rect \<Rightarrow> real" where
  "rect_width (x0, y0, x1, y1) = x1 - x0"

fun rect_height :: "rect \<Rightarrow> real" where
  "rect_height (x0, y0, x1, y1) = y1 - y0"

definition rect_lib :: "rect bbox_lib" where
  "rect_lib =
     \<lparr>Bbox_intersection = rect_meet, Bbox_union = rect_union, Bbox_padded = rect_padded,
      Bbox_width = rect_width, Bbox_height = rect_height, Bbox_scaled = rect_scaled\<rparr>"

text \<open>
  A figure of 8 by 6 inches with six extra artists: a legend, an artist cut
  by its clip box, one clipped away altogether, one without width and height,
  one cut by its clip path, and one that has a clip box and does not clip.
\<close>

definition demo_artists :: "rect artist list" where
  "demo_artists =
     [\<lparr>window_extent = (100, 100, 900, 700), clip_on = False,
       clip_box = None, clip_path_extents = None\<rparr>,
      \<lparr>window_extent = (-200, 50, 400, 300), clip_on = True,
       clip_box = Some (0, 0, 800, 600), clip_path_extents = None\<rparr>,
      \<lparr>window_extent = (2000, 2000, 3000, 3000), clip_on = True,
       clip_box = Some (0, 0, 10, 10), clip_path_extents = None\<rparr>,
      \<lparr>window_extent = (5, 5, 5, 5), clip_on = True,
       clip_box = None, clip_path_extents = Some (0, 0, 10, 10)\<rparr>,
      \<lparr>window_extent = (0, -300, 100, 100), clip_on = True,
       clip_box = None, clip_path_extents = Some (0, 0, 800, 600)\<rparr>,
      \<lparr>window_extent = (850, 0, 950, 100), clip_on = False,
       clip_box = Some (0, 0, 10, 10), clip_path_extents = None\<rparr>]"

definition demo_fig :: "rect figure" where
  "demo_fig =
     \<lparr>fig_id = 7, draw_error = None, has_cachedRenderer = True,
      tightbbox = (0, 0, 8, 6), extra_artists = demo_artists,
      facecolor = ''w'', edgecolor = ''w'', axes3d = []\<rparr>"

definition demo_renderer :: renderer where
  "demo_renderer = \<lparr>dpi = Some 100, fps = 20, mode = Default, pad_inches = 1\<rparr>"

definition demo_state :: "rect state" where
  "demo_state = \<lparr>drawn = Map.empty, counter = 0, trace = [], files = Map.empty\<rparr>"

definition demo_kw :: "(rect, real) kwargs" where
  "demo_kw = [''format'' \<mapsto> PStr ''png'', ''bbox_inches'' \<mapsto> PStr ''tight'']"

definition demo_anim :: "(rect, real) anim" where
  "demo_anim =
     \<lparr>anim_id = 1, has_encoded_video = False, save_result = (\<lambda>writer kw. Inr ''GIF89a'')\<rparr>"

definition demo_plot :: "(rect, real) plot" where
  "demo_plot = \<lparr>plot_state = demo_fig, plot_anim = (\<lambda>fps. demo_anim)\<rparr>"

text \<open>
  An environment with Python 3 and matplotlib 1.3.1, in which every object
  validates to \<open>demo_plot\<close> and has the plot option
  \<^verbatim>\<open>fig_inches=(10, 5)\<close>; the class default of \<^verbatim>\<open>fig_inches\<close> is 4.
  Its floats are real numbers with the exact product and quotient, which is
  Python's arithmetic on the values the examples use (halves of small
  integers).
\<close>

definition demo_collab :: "(nat, rect, real) collab" where
  "demo_collab =
     \<lparr>validate = (\<lambda>obj fmt. Inr (Some demo_plot, fmt)),
      encode = (\<lambda>(data, i). case data of Bytes b \<Rightarrow> b | Text t \<Rightarrow> t | Dict d \<Rightarrow> d),
      MIME_TYPES = [''png'' \<mapsto> ''image/png'', ''gif'' \<mapsto> ''image/gif''],
      py_major = 3,
      mpl_version = ''1.3.1'',
      print_figure = (\<lambda>fig kw. Inr ''PNG''),
      new_figure_manager = (\<lambda>n fig. Some n),
      fig_to_dict = (\<lambda>fig. ''{}''),
      fig_to_html = (\<lambda>fig. ''<div/>''),
      store_options = (\<lambda>obj. None),
      is_HoloMap = (\<lambda>obj. False),
      last_of = (\<lambda>obj. obj),
      lookup_options = (\<lambda>obj. Inr [''fig_inches'' \<mapsto> PTuple [PNum 10, PNum 5]]),
      MPLPlot_fig_inches = PInt 4,
      float_of_int = (\<lambda>i. Inr (real_of_int i)),
      float_mul = (\<lambda>x y. x * y),
      div_100 = (\<lambda>x. x / 100)\<rparr>"

section \<open>Further notions used to state the properties\<close>


text \<open>
  Modelled from the spec: the invariant of the registry of the missing
  \<^verbatim>\<open>links.py\<close>, ``at most one link of a given kind may exist between a given
  ordered (source, target) pair''.
\<close>

definition registry_ok :: "registry \<Rightarrow> bool" where
  "registry_ok reg = (\<forall>l. length (filter (same_link l) (reg (source l))) \<le> 1)"

text \<open>
  The links, the composite and the handles of \<^verbatim>\<open>testlinks.py\<close>: a data link
  and a range link without axes from element 1 to element 2, and the layout
  \<^verbatim>\<open>target + src\<close>, whose sub-plots \<^verbatim>\<open>(0, 0)\<close> and \<^verbatim>\<open>(0, 1)\<close> each hold
  a sub-plot \<^verbatim>\<open>main\<close>; every handle starts as an object of its own. The two
  operations of \<open>demo_ops\<close> leave the handles alone.
\<close>

definition demo_data_link :: link where
  "demo_data_link = \<lparr>source = 1, target = Some 2, kind = DataLink, axes = [], transient = False\<rparr>"








section \<open>The bounding-box cache\<close>











lemma demo_kept:
  "kept_extents rect_lib demo_artists
     = [(100, 100, 900, 700), (0, 50, 400, 300), (0, 0, 100, 100), (850, 0, 950, 100)]"
  by (simp add: kept_extents_def demo_artists_def clip_regions_def rect_lib_def)


lemma demo_padded_union_no_dpi:
  "padded_union rect_lib (demo_renderer\<lparr>dpi := None\<rparr>) demo_fig = None"
  by (simp add: padded_union_def demo_fig_def demo_kept Let_def demo_renderer_def)




section \<open>The link registry and the range link\<close>

lemma same_link_filter:
  "same_link l' l \<Longrightarrow> filter (same_link l') xs = filter (same_link l) xs"
  by (rule filter_cong) (auto simp: same_link_def)

lemma registry_ok_empty: "registry_ok empty_registry"
  by (simp add: registry_ok_def empty_registry_def)

lemma registry_ok_declare:
  assumes "registry_ok reg" "declare_link reg l = Inr reg'"
  shows "registry_ok reg'"
proof (cases "filter (same_link l) (reg (source l)) = []")
  case False
  then show ?thesis using assms by (simp add: declare_link_def split: if_splits)
next
  case True
  then have reg': "reg' = reg(source l := reg (source l) @ [l])"
    using assms(2) by (simp add: declare_link_def split: if_splits)
  show ?thesis unfolding registry_ok_def
  proof
    fix l'
    show "length (filter (same_link l') (reg' (source l'))) \<le> 1"
    proof (cases "source l' = source l")
      case False
      then show ?thesis using assms(1) by (simp add: reg' registry_ok_def)
    next
      case src: True
      show ?thesis
      proof (cases "same_link l' l")
        case True
        then show ?thesis using same_link_filter [OF True] \<open>filter (same_link l) (reg (source l)) = []\<close> src
          by (simp add: reg')
      next
        case False
        then show ?thesis using assms(1) src
          by (simp add: reg' registry_ok_def) (metis src)
      qed
    qed
  qed
qed

lemma registry_ok_declare_all:
  "registry_ok reg \<Longrightarrow> declare_all reg ls = Inr reg' \<Longrightarrow> registry_ok reg'"
proof (induction ls arbitrary: reg)
  case Nil
  then show ?case by simp
next
  case (Cons l ls)
  then show ?case by (auto split: sum.splits dest: registry_ok_declare)
qed

lemma declare_link_stored:
  assumes "declare_link reg l = Inr reg1"
  shows "filter (same_link l) (reg1 (source l)) \<noteq> []"
  using assms by (auto simp: declare_link_def same_link_def split: if_splits)

text \<open>
  Claim C2. In a registry built by declarations, declaring a link and then
  declaring the identical link again leaves the registry as the first
  declaration made it, and the entries of its source with that (source, target,
  kind) are exactly one.
\<close>

theorem declare_link_idempotent:
  assumes "declare_all empty_registry ls = Inr reg"
      and "declare_link reg l = Inr reg1"
  shows "declare_link reg1 l = Inr reg1
         \<and> length (filter (same_link l) (lookup reg1 (source l))) = 1"
proof -
  have ok: "registry_ok reg1"
    using registry_ok_declare [OF registry_ok_declare_all [OF registry_ok_empty assms(1)] assms(2)] .
  have ne: "filter (same_link l) (reg1 (source l)) \<noteq> []"
    by (rule declare_link_stored [OF assms(2)])
  have "declare_link reg1 l = Inr reg1"
    using assms(2) ne by (simp add: declare_link_def split: if_splits)
  moreover have "length (filter (same_link l) (reg1 (source l))) \<le> 1"
    using ok by (simp add: registry_ok_def)
  ultimately show ?thesis
    using ne by (cases "filter (same_link l) (reg1 (source l))") (simp_all add: lookup_def)
qed

theorem declare_link_idempotent_witness:
  "declare_link empty_registry demo_data_link = Inr (empty_registry(1 := [demo_data_link]))
   \<and> declare_link (empty_registry(1 := [demo_data_link])) demo_data_link
       = Inr (empty_registry(1 := [demo_data_link]))
   \<and> length (filter (same_link demo_data_link)
               (lookup (empty_registry(1 := [demo_data_link])) (source demo_data_link))) = 1
   \<and> lookup (empty_registry(1 := [demo_data_link])) 1 = [demo_data_link]"
proof -
  have h1: "declare_all empty_registry [] = Inr empty_registry" by simp
  have h2: "declare_link empty_registry demo_data_link = Inr (empty_registry(1 := [demo_data_link]))"
    by (simp add: declare_link_def demo_data_link_def empty_registry_def requires_target_def
          valid_axes_def)
  show ?thesis
    using declare_link_idempotent [OF h1 h2] h2 by (simp add: lookup_def)
qed











section \<open>Rendering a figure\<close>

text \<open>
  Claim C4. In the static mode, when \<^verbatim>\<open>_compute_bbox\<close> raises an exception,
  whichever it is, \<^verbatim>\<open>_figure_data\<close> goes on to print the figure with the
  keyword dictionary it had built, in which \<^verbatim>\<open>bbox_inches\<close> is the caller's
  value, and returns the printed data whenever the printing succeeds.
\<close>

theorem figure_data_swallows_bbox_failure:
  assumes "mode r = Default"
      and "kw = figure_kw r (plot_state plot) fmt bbox_inches kwargs"
      and "compute_bbox L r (plot_state plot) kw s = (Inl e, s1)"
  shows "figure_data C L r plot fmt bbox_inches kwargs s
           = print_and_read C (plot_state plot) fmt kw s1
         \<and> (kwargs ''bbox_inches'' = None \<longrightarrow> kw ''bbox_inches'' = Some bbox_inches)
         \<and> (\<forall>data. print_figure C (plot_state plot) kw = Inr data \<longrightarrow>
               fst (figure_data C L r plot fmt bbox_inches kwargs s)
                 = Inr (if fmt = ''svg'' then Text data else Bytes data))"
  using assms
  by (simp add: figure_data_def print_and_read_def figure_kw_def Let_def map_add_def)

theorem figure_data_swallows_bbox_failure_witness:
  "compute_bbox rect_lib demo_renderer (demo_fig\<lparr>has_cachedRenderer := False\<rparr>)
      (figure_kw demo_renderer (demo_fig\<lparr>has_cachedRenderer := False\<rparr>) ''png''
         (PStr ''tight'') Map.empty) demo_state
     = (Inl (Raised AttributeError ''_cachedRenderer''),
        demo_state\<lparr>trace := [SetDpi 7 (Some 100), CanvasDraw 7]\<rparr>)
   \<and> figure_data demo_collab rect_lib demo_renderer
        (demo_plot\<lparr>plot_state := demo_fig\<lparr>has_cachedRenderer := False\<rparr>\<rparr>) ''png''
        (PStr ''tight'') Map.empty demo_state
     = (Inr (Bytes ''PNG''),
        demo_state\<lparr>trace := [SetDpi 7 (Some 100), CanvasDraw 7, PrintFigure 7]\<rparr>)"
proof -
  let ?fig = "demo_fig\<lparr>has_cachedRenderer := False\<rparr>"
  let ?plot = "demo_plot\<lparr>plot_state := ?fig\<rparr>"
  let ?kw = "figure_kw demo_renderer ?fig ''png'' (PStr ''tight'') Map.empty"
  have m: "mode demo_renderer = Default" by (simp add: demo_renderer_def)
  have k: "?kw = figure_kw demo_renderer (plot_state ?plot) ''png'' (PStr ''tight'') Map.empty"
    by simp
  have c: "compute_bbox rect_lib demo_renderer (plot_state ?plot) ?kw demo_state
             = (Inl (Raised AttributeError ''_cachedRenderer''),
                demo_state\<lparr>trace := [SetDpi 7 (Some 100), CanvasDraw 7]\<rparr>)"
    by (simp add: compute_bbox_def figure_kw_def draw_and_measure_def demo_fig_def
          demo_state_def demo_renderer_def emit_def Let_def)
  show ?thesis
    using figure_data_swallows_bbox_failure [OF m k c, of demo_collab] c
    by (simp add: print_and_read_def demo_collab_def emit_def demo_fig_def Let_def)
qed

text \<open>
  Claim C5. When the crop of the keyword dictionary is not \<^verbatim>\<open>'tight'\<close> or its
  format is not \<^verbatim>\<open>'png'\<close>, \<^verbatim>\<open>_compute_bbox\<close> returns the dictionary as it
  got it and leaves the state as it was, whatever the cache holds.
\<close>

theorem compute_bbox_other_formats:
  assumes "kw ''bbox_inches'' = Some crop"
      and "crop \<noteq> PStr ''tight'' \<or> (\<exists>fmt. kw ''format'' = Some fmt \<and> fmt \<noteq> PStr ''png'')"
  shows "compute_bbox L r fig kw s = (Inr kw, s)
         \<and> (\<forall>cache. compute_bbox L r fig kw (s\<lparr>drawn := cache\<rparr>) = (Inr kw, s\<lparr>drawn := cache\<rparr>))"
  using assms by (auto simp: compute_bbox_def)

theorem compute_bbox_other_formats_witness:
  "compute_bbox rect_lib demo_renderer demo_fig (demo_kw(''format'' \<mapsto> PStr ''svg''))
     (demo_state\<lparr>drawn := [7 \<mapsto> (0, 0, 1, 1)]\<rparr>)
   = (Inr (demo_kw(''format'' \<mapsto> PStr ''svg'')), demo_state\<lparr>drawn := [7 \<mapsto> (0, 0, 1, 1)]\<rparr>)"
proof -
  have h1: "(demo_kw(''format'' \<mapsto> PStr ''svg'')) ''bbox_inches'' = Some (PStr ''tight'')"
    by (simp add: demo_kw_def)
  have h2: "PStr ''tight'' \<noteq> (PStr ''tight'' :: (rect, real) pyval)
            \<or> (\<exists>fmt. (demo_kw(''format'' \<mapsto> PStr ''svg'')) ''format'' = Some fmt
                     \<and> fmt \<noteq> PStr ''png'')"
    by simp
  show ?thesis
    using compute_bbox_other_formats [OF h1 h2] by blast
qed

section \<open>Encoding an animation\<close>


text \<open>In line 219 the table's frame rate of a GIF wins over \<^verbatim>\<open>self.fps\<close>.\<close>

lemma gif_fps_from_table:
  "encoder_kwargs r ''gif'' [''fps'' \<mapsto> PInt 10] (PList []) ''fps'' = Some (PInt 10)"
  by (simp add: encoder_kwargs_def dpi_if_not_None_def dpi_if_true_def map_add_def
           split: option.splits)




section \<open>The renderer's entry points\<close>

text \<open>
  Claim C7, as amended. When validation yields a plot and a format that is not
  a static one, and the environment is Python 3 with a matplotlib version
  whose string without its last two characters is \<^verbatim>\<open>1.2\<close> or \<^verbatim>\<open>1.3\<close>,
  \<^verbatim>\<open>__call__\<close> raises an \<^verbatim>\<open>Exception\<close> with the message of line 93 and does
  nothing before: no animation is constructed and no encoder runs. When
  validation yields no plot, \<^verbatim>\<open>__call__\<close> returns \<^verbatim>\<open>None\<close>, raises nothing
  and does nothing, whatever the environment.
\<close>

theorem call_broken_environment:
  "(\<forall>plot fmt'. validate C obj fmt = Inr (Some plot, fmt')
        \<and> fmt' \<notin> set static_formats \<and> broken_env C
      \<longrightarrow> call C L r obj fmt s = (Inl (Raised Exception broken_message), s))
   \<and> (\<forall>fmt'. validate C obj fmt = Inr (None, fmt') \<longrightarrow> call C L r obj fmt s = (Inr None, s))"
  by (simp add: call_def)

theorem call_broken_environment_witness:
  "validate demo_collab 0 ''mp4'' = Inr (Some demo_plot, ''mp4'')
   \<and> ''mp4'' \<notin> set static_formats
   \<and> broken_env demo_collab
   \<and> call demo_collab rect_lib demo_renderer 0 ''mp4'' demo_state
       = (Inl (Raised Exception broken_message), demo_state)
   \<and> call (demo_collab\<lparr>validate := (\<lambda>obj fmt. Inr (None, fmt))\<rparr>) rect_lib demo_renderer 0
         ''mp4'' demo_state
       = (Inr None, demo_state)
   \<and> trace demo_state = []"
proof -
  let ?C = "demo_collab\<lparr>validate := (\<lambda>obj fmt. Inr (None, fmt))\<rparr>"
  have h1: "validate demo_collab (0::nat) ''mp4'' = Inr (Some demo_plot, ''mp4'')"
    by (simp add: demo_collab_def)
  have h2: "''mp4'' \<notin> set static_formats" by (simp add: static_formats_def)
  have h3: "broken_env demo_collab" by (simp add: broken_env_def demo_collab_def)
  have h4: "validate ?C (0::nat) ''mp4'' = Inr (None, ''mp4'')" by simp
  show ?thesis
    using call_broken_environment [of demo_collab 0 "''mp4''" rect_lib demo_renderer demo_state]
          call_broken_environment [of ?C 0 "''mp4''" rect_lib demo_renderer demo_state]
          h1 h2 h3 h4
    by (simp add: demo_state_def)
qed

text \<open>
  The claim as written fails twice in the broken environment: the exception
  raised for \<^verbatim>\<open>'gif'\<close> is of the class \<^verbatim>\<open>Exception\<close>, not
  \<^verbatim>\<open>EnvironmentError\<close>; and when validation yields no plot, \<^verbatim>\<open>__call__\<close>
  returns \<^verbatim>\<open>None\<close> and raises nothing.
\<close>

theorem call_broken_environment_counterexample:
  "broken_env demo_collab \<and> ''gif'' \<notin> set static_formats
   \<and> call demo_collab rect_lib demo_renderer 0 ''gif'' demo_state
       = (Inl (Raised Exception broken_message), demo_state)
   \<and> exc_class_of (Raised Exception broken_message) \<noteq> EnvironmentError
   \<and> broken_env (demo_collab\<lparr>validate := (\<lambda>obj fmt. Inr (None, fmt))\<rparr>)
   \<and> call (demo_collab\<lparr>validate := (\<lambda>obj fmt. Inr (None, fmt))\<rparr>) rect_lib demo_renderer 0
         ''gif'' demo_state
       = (Inr None, demo_state)"
  by (simp add: broken_env_def demo_collab_def static_formats_def call_def)

text \<open>
  Claim C8, as amended. When \<^verbatim>\<open>key\<close> or \<^verbatim>\<open>info\<close> is not empty, \<^verbatim>\<open>save\<close>
  raises an \<^verbatim>\<open>Exception\<close> with the message of line 136 and leaves the state
  as it was: nothing is rendered and no file is written.
\<close>

theorem save_metadata_unsupported:
  assumes "info \<noteq> [] \<or> key \<noteq> []"
  shows "save C L r obj basename fmt key info s = (Inl (Raised Exception metadata_message), s)"
  using assms by (auto simp: save_def)

theorem save_metadata_unsupported_witness:
  "save demo_collab rect_lib demo_renderer 0 ''out'' ''png'' [] [(''note'', PStr ''x'')] demo_state
     = (Inl (Raised Exception metadata_message), demo_state)
   \<and> files demo_state = Map.empty \<and> trace demo_state = []"
proof -
  have h: "[(''note'', PStr ''x'' :: (rect, real) pyval)] \<noteq> [] \<or> ([] :: (string \<times> (rect, real) pyval) list) \<noteq> []"
    by simp
  show ?thesis
    using save_metadata_unsupported [OF h, of demo_collab rect_lib demo_renderer 0 "''out''" "''png''" demo_state]
    by (simp add: demo_state_def)
qed

text \<open>
  The claim as written fails in the class of the exception: it is
  \<^verbatim>\<open>Exception\<close>, not \<^verbatim>\<open>UnsupportedOperationError\<close>.
\<close>

theorem save_metadata_counterexample:
  "save demo_collab rect_lib demo_renderer 0 ''out'' ''png'' [(''frame'', PInt 1)] [] demo_state
       = (Inl (Raised Exception metadata_message), demo_state)
   \<and> exc_class_of (Raised Exception metadata_message) \<noteq> UnsupportedOperationError"
  by (simp add: save_def)

section \<open>The figure size of \<^verbatim>\<open>plot_options\<close>\<close>

text \<open>\<^verbatim>\<open>plot_options\<close> writes nothing: no cache, no event, no file.\<close>

lemma plot_options_state: "snd (plot_options C obj percent_size s) = s"
  by (simp add: plot_options_def Let_def split: sum.splits)

lemma map_add_singleton_present:
  "options k = Some v \<Longrightarrow> [k \<mapsto> w] ++ options = options"
  by (rule ext) (simp add: map_add_def split: option.splits)

text \<open>
  Whenever \<^verbatim>\<open>plot_options\<close> returns for an object whose options hold
  \<^verbatim>\<open>fig_inches\<close>, it returns those options: the size scaled in lines 120 to
  124 is replaced in line 126, whatever the percentage.
\<close>

lemma plot_options_option_wins:
  assumes "lookup_options C (if is_HoloMap C obj then last_of C obj else obj) = Inr options"
      and "options ''fig_inches'' = Some v"
      and "plot_options C obj percent_size s = (Inr result, s')"
  shows "result = options"
  using assms
  by (auto simp: plot_options_def Let_def map_add_singleton_present split: sum.splits)

text \<open>
  Claim C9. The code does not do what the claim says. For an object with the
  plot option \<^verbatim>\<open>fig_inches=(10, 5)\<close> and \<^verbatim>\<open>percent_size\<close> 50 the factor is
  one half, lines 120 to 122 scale the option to \<^verbatim>\<open>(5.0, 2.5)\<close>, and the
  result of \<^verbatim>\<open>plot_options\<close> holds \<^verbatim>\<open>(10, 5)\<close>: line 126 puts the looked-up
  options over the scaled size. The call changes no state.
\<close>

theorem plot_options_discards_scaled_size:
  "percent_factor demo_collab (PInt 50) = Inr (1 / 2)
   \<and> lookup_options demo_collab 0 = Inr [''fig_inches'' \<mapsto> PTuple [PNum 10, PNum 5]]
   \<and> scale_fig_inches demo_collab (PTuple [PNum 10, PNum 5]) (1 / 2)
       = Inr (PTuple [PNum 5, PNum (5 / 2)])
   \<and> plot_options demo_collab 0 (PInt 50) demo_state
       = (Inr [''fig_inches'' \<mapsto> PTuple [PNum 10, PNum 5]], demo_state)
   \<and> PTuple [PNum 10, PNum 5] \<noteq> (PTuple [PNum 5, PNum (5 / 2)] :: (rect, real) pyval)"
proof -
  have f: "percent_factor demo_collab (PInt 50) = Inr (1 / 2)"
    by (simp add: percent_factor_def as_float_def demo_collab_def)
  have l: "lookup_options demo_collab (0::nat)
             = Inr [''fig_inches'' \<mapsto> PTuple [PNum 10, PNum 5]]"
    by (simp add: demo_collab_def)
  have sc: "scale_fig_inches demo_collab (PTuple [PNum 10, PNum 5]) (1 / 2)
              = Inr (PTuple [PNum 5, PNum (5 / 2)])"
    by (simp add: scale_fig_inches_def list_or_tuple_def item_def times_float_def as_float_def
          demo_collab_def)
  have h: "is_HoloMap demo_collab (0::nat) = False" by (simp add: demo_collab_def)
  have "plot_options demo_collab 0 (PInt 50) demo_state
          = (Inr [''fig_inches'' \<mapsto> PTuple [PNum 10, PNum 5]], demo_state)"
    by (simp add: plot_options_def f l sc h Let_def map_add_singleton_present)
  then show ?thesis using f l sc by simp
qed

section \<open>An animation that is already encoded\<close>

text \<open>
  Claim C10. For an animation that has the attribute \<^verbatim>\<open>_encoded_video\<close>,
  \<^verbatim>\<open>_anim_data\<close> raises and leaves the state as it was; for a format of the
  table the exception is the \<^verbatim>\<open>UnboundLocalError\<close> of \<^verbatim>\<open>video\<close>. Whenever
  \<^verbatim>\<open>_anim_data\<close> returns data the animation has no such attribute, and for an
  animation without it, a format of the table and an encoder that succeeds,
  \<^verbatim>\<open>_anim_data\<close> returns the bytes the encoder wrote.
\<close>

theorem anim_data_encoded_video:
  "(has_encoded_video anim \<longrightarrow>
      (\<exists>e. anim_data r anim fmt s = (Inl e, s))
      \<and> (fmt \<in> set [''webm'', ''mp4'', ''gif'', ''scrubber''] \<longrightarrow>
           anim_data r anim fmt s = (Inl (Raised UnboundLocalError ''video''), s)))
   \<and> (\<forall>video s'. anim_data r anim fmt s = (Inr video, s') \<longrightarrow> \<not> has_encoded_video anim)
   \<and> (\<forall>writer container anim_kwargs extra_args video.
         \<not> has_encoded_video anim
         \<and> ANIMATION_OPTS fmt = Some (writer, container, anim_kwargs, extra_args)
         \<and> save_result anim writer (encoder_kwargs r fmt anim_kwargs extra_args) = Inr video
         \<longrightarrow> anim_data r anim fmt s
               = (Inr (Bytes video), emit (AnimSave (anim_id anim) writer) s))"
proof (intro conjI impI allI)
  assume "has_encoded_video anim"
  then show "\<exists>e. anim_data r anim fmt s = (Inl e, s)"
    by (auto simp: anim_data_def split: option.splits)
next
  assume "has_encoded_video anim" "fmt \<in> set [''webm'', ''mp4'', ''gif'', ''scrubber'']"
  then show "anim_data r anim fmt s = (Inl (Raised UnboundLocalError ''video''), s)"
    by (auto simp: anim_data_def ANIMATION_OPTS_def)
next
  fix video s'
  assume "anim_data r anim fmt s = (Inr video, s')"
  then show "\<not> has_encoded_video anim"
    by (auto simp: anim_data_def split: option.splits if_splits)
next
  fix writer container anim_kwargs extra_args video
  assume "\<not> has_encoded_video anim
          \<and> ANIMATION_OPTS fmt = Some (writer, container, anim_kwargs, extra_args)
          \<and> save_result anim writer (encoder_kwargs r fmt anim_kwargs extra_args) = Inr video"
  then show "anim_data r anim fmt s
               = (Inr (Bytes video), emit (AnimSave (anim_id anim) writer) s)"
    by (simp add: anim_data_def Let_def)
qed

theorem anim_data_encoded_video_witness:
  "anim_data demo_renderer (demo_anim\<lparr>has_encoded_video := True\<rparr>) ''gif'' demo_state
     = (Inl (Raised UnboundLocalError ''video''), demo_state)
   \<and> anim_data demo_renderer demo_anim ''gif'' demo_state
     = (Inr (Bytes ''GIF89a''), emit (AnimSave 1 ''imagemagick'') demo_state)"
proof -
  have h1: "has_encoded_video (demo_anim\<lparr>has_encoded_video := True\<rparr>)" by simp
  have h2: "''gif'' \<in> set [''webm'', ''mp4'', ''gif'', ''scrubber'']" by simp
  have h3: "\<not> has_encoded_video demo_anim
            \<and> ANIMATION_OPTS ''gif'' = Some (''imagemagick'', Some ''gif'', [''fps'' \<mapsto> PInt 10], PList [] :: (rect, real) pyval)
            \<and> save_result demo_anim ''imagemagick''
                 (encoder_kwargs demo_renderer ''gif'' [''fps'' \<mapsto> PInt 10] (PList [])) = Inr ''GIF89a''"
    by (simp add: demo_anim_def ANIMATION_OPTS_def)
  show ?thesis
    using anim_data_encoded_video [of "demo_anim\<lparr>has_encoded_video := True\<rparr>" demo_renderer "''gif''" demo_state]
          anim_data_encoded_video [of demo_anim demo_renderer "''gif''" demo_state]
          h1 h2 h3
    by (auto simp: demo_anim_def)
qed

end
